theory Spec2Isabelle
  imports Complex_Main
begin

section \<open>Weather_app: the component \<open>src/components/WeatherApp.tsx\<close>\<close>

text \<open>
  The repository is one React component. It holds four state variables (\<open>city\<close>,
  \<open>weather\<close>, \<open>loading\<close>, \<open>error\<close>), one asynchronous handler \<open>fetchWeather\<close>
  that chains two HTTP calls, a key handler, a pure function \<open>getWeatherIcon\<close> and the
  element tree the component returns.

  The embedding follows the file top to bottom. What the JavaScript runtime does
  around the component is made explicit:
  \<^item> a value read out of a parsed JSON body is a \<open>jsval\<close>; reading a property of
    \<open>undefined\<close> or \<open>null\<close> throws, which is the left summand of \<open>js_error + 'a\<close>;
  \<^item> the asynchronous handler is cut at its two suspension points: an element of
    \<open>pending\<close> is a call of \<open>fetchWeather\<close> that waits for a response, and the
    settlement of that response is an event;
  \<^item> every request handed to \<open>fetch\<close> is appended to the log \<open>requests\<close>.
\<close>

subsection \<open>Strings\<close>

text \<open>
  A \<open>string\<close> is read as a sequence of code units below 256 (Latin-1); code units
  above that are outside the model. \<open>String.prototype.trim\<close> strips white space and
  line terminators from both ends: in this range TAB, LF, VT, FF, CR, SP and NBSP.
  \<open>String.prototype.toLowerCase\<close> maps \<open>A\<close>..\<open>Z\<close> and the Latin-1 capitals
  \<open>0xC0\<close>..\<open>0xDE\<close> (without the multiplication sign \<open>0xD7\<close>) 32 code units up.
\<close>

definition isWhiteSpace :: "char \<Rightarrow> bool" where
  "isWhiteSpace c \<longleftrightarrow>
     c \<in> set [CHR 0x09, CHR 0x0A, CHR 0x0B, CHR 0x0C, CHR 0x0D, CHR 0x20, CHR 0xA0]"

definition trim :: "string \<Rightarrow> string" where
  "trim s = rev (dropWhile isWhiteSpace (rev (dropWhile isWhiteSpace s)))"

definition lowerChar :: "char \<Rightarrow> char" where
  "lowerChar c =
     (let n = (of_char c :: nat) in
      if (65 \<le> n \<and> n \<le> 90) \<or> (192 \<le> n \<and> n \<le> 222 \<and> n \<noteq> 215)
      then char_of (n + 32) else c)"

definition toLowerCase :: "string \<Rightarrow> string" where
  "toLowerCase s = map lowerChar s"

subsection \<open>JavaScript values\<close>

text \<open>
  A Number is \<open>NaN\<close>, an infinity, or a finite value, kept as the rational it
  denotes: every finite Number is a rational, and the component compares Numbers with
  integer literals and rounds them, which is exact on the value (the sign of zero is
  not observable by the component). A \<open>jsval\<close> is what \<open>Response.json()\<close> can
  produce, together with \<open>undefined\<close>, the value of a missing property. An object is
  the list of its own properties; where a name occurs twice the first entry is the
  property.
\<close>

datatype jsnum = NaN | NegInfinity | Fin rat | PosInfinity

datatype jsval =
    Undefined
  | Null
  | Bool bool
  | Num jsnum
  | Str string
  | Arr "jsval list"
  | Obj "(string \<times> jsval) list"

datatype js_error = Error string | TypeError | SyntaxError

text \<open>
  Four conversions of ECMAScript are not fixed by the component and are taken from
  the runtime: a string to a Number, a Number to a string, and an array or an object
  to a Number or to a string (\<open>ToPrimitive\<close>, which can throw a \<open>TypeError\<close>).
\<close>

record runtime =
  StringToNumber :: "string \<Rightarrow> jsnum"
  Number_toString :: "jsnum \<Rightarrow> string"
  object_ToNumber :: "jsval \<Rightarrow> js_error + jsnum"
  object_ToString :: "jsval \<Rightarrow> js_error + string"

definition and_then :: "js_error + 'a \<Rightarrow> ('a \<Rightarrow> js_error + 'b) \<Rightarrow> js_error + 'b" where
  "and_then r k = (case r of Inl e \<Rightarrow> Inl e | Inr x \<Rightarrow> k x)"

fun ToNumber :: "runtime \<Rightarrow> jsval \<Rightarrow> js_error + jsnum" where
  "ToNumber rt Undefined = Inr NaN"
| "ToNumber rt Null = Inr (Fin 0)"
| "ToNumber rt (Bool b) = Inr (Fin (if b then 1 else 0))"
| "ToNumber rt (Num n) = Inr n"
| "ToNumber rt (Str s) = Inr (StringToNumber rt s)"
| "ToNumber rt (Arr xs) = object_ToNumber rt (Arr xs)"
| "ToNumber rt (Obj kvs) = object_ToNumber rt (Obj kvs)"

fun ToString :: "runtime \<Rightarrow> jsval \<Rightarrow> js_error + string" where
  "ToString rt Undefined = Inr ''undefined''"
| "ToString rt Null = Inr ''null''"
| "ToString rt (Bool b) = Inr (if b then ''true'' else ''false'')"
| "ToString rt (Num n) = Inr (Number_toString rt n)"
| "ToString rt (Str s) = Inr s"
| "ToString rt (Arr xs) = object_ToString rt (Arr xs)"
| "ToString rt (Obj kvs) = object_ToString rt (Obj kvs)"

text \<open>\<open>!v\<close> is \<open>\<not> ToBoolean v\<close>.\<close>

fun ToBoolean :: "jsval \<Rightarrow> bool" where
  "ToBoolean Undefined = False"
| "ToBoolean Null = False"
| "ToBoolean (Bool b) = b"
| "ToBoolean (Num n) = (n \<noteq> NaN \<and> n \<noteq> Fin 0)"
| "ToBoolean (Str s) = (s \<noteq> [])"
| "ToBoolean (Arr xs) = True"
| "ToBoolean (Obj kvs) = True"

text \<open>\<open>v === k\<close> for a finite numeric literal \<open>k\<close>.\<close>

definition strict_eq_num :: "jsval \<Rightarrow> rat \<Rightarrow> bool" where
  "strict_eq_num v k \<longleftrightarrow> v = Num (Fin k)"

text \<open>\<open>v <= k\<close> for a finite numeric literal \<open>k\<close>: false when \<open>v\<close> converts to \<open>NaN\<close>.\<close>

fun jsnum_le :: "jsnum \<Rightarrow> rat \<Rightarrow> bool" where
  "jsnum_le NaN k = False"
| "jsnum_le NegInfinity k = True"
| "jsnum_le (Fin x) k = (x \<le> k)"
| "jsnum_le PosInfinity k = False"

definition js_le :: "runtime \<Rightarrow> jsval \<Rightarrow> rat \<Rightarrow> js_error + bool" where
  "js_le rt v k = and_then (ToNumber rt v) (\<lambda>n. Inr (jsnum_le n k))"

text \<open>
  \<open>Math.round\<close>: the integral Number closest to the argument, the one closer to
  \<open>+\<infinity>\<close> at a tie.
\<close>

fun round_num :: "jsnum \<Rightarrow> jsnum" where
  "round_num (Fin x) = Fin (of_int \<lfloor>x + 1 / 2\<rfloor>)"
| "round_num n = n"

definition Math_round :: "runtime \<Rightarrow> jsval \<Rightarrow> js_error + jsnum" where
  "Math_round rt v = and_then (ToNumber rt v) (\<lambda>n. Inr (round_num n))"

text \<open>
  Reading a property, \<open>v.k\<close> or \<open>v[k]\<close>, for the property names the component reads
  (none of them is inherited from a built-in prototype, except \<open>length\<close>, which
  strings and arrays have).
\<close>

definition index_of :: "string \<Rightarrow> nat option" where
  "index_of k =
     (if k \<noteq> [] \<and> list_all (\<lambda>c. c \<in> set ''0123456789'') k
         \<and> (k = ''0'' \<or> hd k \<noteq> CHR ''0'')
      then Some (foldl (\<lambda>n c. 10 * n + (of_char c - 48)) (0::nat) k) else None)"

definition element_at :: "jsval list \<Rightarrow> string \<Rightarrow> jsval" where
  "element_at xs k =
     (case index_of k of
        Some i \<Rightarrow> if i < length xs then xs ! i else Undefined
      | None \<Rightarrow> Undefined)"

fun js_get :: "jsval \<Rightarrow> string \<Rightarrow> js_error + jsval" where
  "js_get Undefined k = Inl TypeError"
| "js_get Null k = Inl TypeError"
| "js_get (Bool b) k = Inr Undefined"
| "js_get (Num n) k = Inr Undefined"
| "js_get (Str s) k =
     Inr (if k = ''length'' then Num (Fin (of_nat (length s)))
          else element_at (map (\<lambda>c. Str [c]) s) k)"
| "js_get (Arr xs) k =
     Inr (if k = ''length'' then Num (Fin (of_nat (length xs))) else element_at xs k)"
| "js_get (Obj kvs) k =
     Inr (case map_of kvs k of Some v \<Rightarrow> v | None \<Rightarrow> Undefined)"

subsection \<open>\<open>WeatherData\<close> and \<open>getWeatherIcon\<close> (lines 4 to 36)\<close>

text \<open>
  The interface declares \<open>city\<close>, \<open>country\<close> and \<open>humidity\<close> as string, string and
  number, but the component stores what the responses hold, unchecked: they are
  \<open>jsval\<close>s. The three rounded fields are always Numbers.
\<close>

record WeatherData =
  city :: jsval
  country :: jsval
  temperature :: jsnum
  feelsLike :: jsnum
  humidity :: jsval
  windSpeed :: jsnum
  condition :: string
  description :: string

datatype lucide = Sun | Cloud | CloudRain | CloudSnow | CloudLightning | CloudFog

text \<open>An icon element: the component and its \<open>className\<close>.\<close>

type_synonym icon_element = "lucide \<times> string"

definition iconClass :: string where
  "iconClass = ''w-24 h-24 text-weather-icon drop-shadow-lg''"

definition getWeatherIcon :: "string \<Rightarrow> icon_element" where
  "getWeatherIcon cond =
     (let c = toLowerCase cond in
      if c = ''clear'' then (Sun, iconClass)
      else if c = ''clouds'' then (Cloud, iconClass)
      else if c = ''rain'' \<or> c = ''drizzle'' then (CloudRain, iconClass)
      else if c = ''snow'' then (CloudSnow, iconClass)
      else if c = ''thunderstorm'' then (CloudLightning, iconClass)
      else if c = ''mist'' \<or> c = ''fog'' \<or> c = ''haze'' then (CloudFog, iconClass)
      else (Sun, iconClass))"

subsection \<open>The component state\<close>

text \<open>
  The four \<open>useState\<close> variables (\<open>city\<close> is \<open>city_input\<close> here, \<open>WeatherData\<close>
  having a field \<open>city\<close> already), the calls of \<open>fetchWeather\<close> that wait for a
  response, oldest first, and the log of the requests handed to \<open>fetch\<close>.
  A call that waits for the forecast has \<open>name\<close> and \<open>country\<close> of the
  geocoding match in its scope.
\<close>

datatype request = GeoReq string | ForecastReq string string

datatype lookup = AwaitGeo | AwaitForecast jsval jsval

record app =
  city_input :: string
  weather :: "WeatherData option"
  loading :: bool
  error :: string
  pending :: "lookup list"
  requests :: "request list"

definition initial :: app where
  "initial = \<lparr>city_input = [], weather = None, loading = False, error = [],
     pending = [], requests = []\<rparr>"

subsection \<open>\<open>fetchWeather\<close> (lines 44 to 112)\<close>

text \<open>
  Lines 45 to 54, up to the first \<open>await\<close>: the guard on the trimmed text, the two
  state updates and the geocoding request. \<open>GeoReq c\<close> is the request whose \<open>name\<close>
  parameter is \<open>encodeURIComponent c\<close>, which is defined for every string of the
  model. A handler runs on the state of the last rendering, and React renders again
  before the next event, so the state a handler reads is the current one.
\<close>

definition fetchWeather :: "app \<Rightarrow> app" where
  "fetchWeather s =
     (if trim (city_input s) = [] then s
      else s\<lparr>loading := True, error := [],
             pending := pending s @ [AwaitGeo],
             requests := requests s @ [GeoReq (city_input s)]\<rparr>)"

text \<open>
  Lines 55 to 66, from the parsed geocoding body to the forecast request: the check
  of \<open>results\<close>, the destructuring of its first element, and the two coordinates
  interpolated into the URL (\<open>ForecastReq\<close> keeps their two texts). The result also
  holds \<open>name\<close> and \<open>country\<close>, which the rest of the call uses.
\<close>

definition fetchWeather_geo :: "runtime \<Rightarrow> jsval \<Rightarrow> js_error + (jsval \<times> jsval \<times> request)" where
  "fetchWeather_geo rt geoData =
     and_then (js_get geoData ''results'') (\<lambda>results.
     if \<not> ToBoolean results then Inl (Error ''City not found'')
     else
     and_then (js_get results ''length'') (\<lambda>len.
     if strict_eq_num len 0 then Inl (Error ''City not found'')
     else
     and_then (js_get results ''0'') (\<lambda>first.
     and_then (js_get first ''latitude'') (\<lambda>latitude.
     and_then (js_get first ''longitude'') (\<lambda>longitude.
     and_then (js_get first ''name'') (\<lambda>name.
     and_then (js_get first ''country'') (\<lambda>country.
     and_then (ToString rt latitude) (\<lambda>lat.
     and_then (ToString rt longitude) (\<lambda>lon.
     Inr (name, country, ForecastReq lat lon))))))))))"

text \<open>Lines 73 to 94: the weather code mapped to \<open>condition\<close> and \<open>description\<close>.\<close>

definition condition_description :: "runtime \<Rightarrow> jsval \<Rightarrow> js_error + (string \<times> string)" where
  "condition_description rt weatherCode =
     (if strict_eq_num weatherCode 0 then Inr (''Clear'', ''Clear sky'')
      else
      and_then (js_le rt weatherCode 3) (\<lambda>le3.
      if le3 then Inr (''Clouds'', ''Partly cloudy'')
      else
      and_then (js_le rt weatherCode 49) (\<lambda>le49.
      if le49 then Inr (''Fog'', ''Foggy'')
      else
      and_then (js_le rt weatherCode 69) (\<lambda>le69.
      if le69 then Inr (''Rain'', ''Rainy'')
      else
      and_then (js_le rt weatherCode 79) (\<lambda>le79.
      if le79 then Inr (''Snow'', ''Snowy'')
      else
      and_then (js_le rt weatherCode 99) (\<lambda>le99.
      if le99 then Inr (''Thunderstorm'', ''Thunderstorm'')
      else Inr (''Clear'', ''Clear sky'')))))))"

text \<open>Lines 67 to 105, from the parsed forecast body to the argument of \<open>setWeather\<close>.\<close>

definition fetchWeather_forecast :: "runtime \<Rightarrow> jsval \<Rightarrow> jsval \<Rightarrow> jsval \<Rightarrow> js_error + WeatherData" where
  "fetchWeather_forecast rt name country' weatherData =
     and_then (js_get weatherData ''current'') (\<lambda>current.
     and_then (js_get current ''weather_code'') (\<lambda>weatherCode.
     and_then (condition_description rt weatherCode) (\<lambda>(condition', description').
     and_then (js_get current ''temperature_2m'') (\<lambda>t.
     and_then (Math_round rt t) (\<lambda>temperature'.
     and_then (js_get current ''apparent_temperature'') (\<lambda>a.
     and_then (Math_round rt a) (\<lambda>feelsLike'.
     and_then (js_get current ''relative_humidity_2m'') (\<lambda>humidity'.
     and_then (js_get current ''wind_speed_10m'') (\<lambda>w.
     and_then (Math_round rt w) (\<lambda>windSpeed'.
     Inr \<lparr>city = name, country = country', temperature = temperature',
          feelsLike = feelsLike', humidity = humidity', windSpeed = windSpeed',
          condition = condition', description = description'\<rparr>))))))))))"

text \<open>Lines 106 to 111: the \<open>catch\<close> block and the \<open>finally\<close> block.\<close>

definition error_message :: string where
  "error_message = ''Could not find weather for this city. Please try again.''"

definition fetchWeather_catch :: "app \<Rightarrow> app" where
  "fetchWeather_catch s = s\<lparr>error := error_message, weather := None\<rparr>"

definition fetchWeather_finally :: "app \<Rightarrow> app" where
  "fetchWeather_finally s = s\<lparr>loading := False\<rparr>"

subsection \<open>Events\<close>

text \<open>
  An awaited response either rejects (\<open>fetch\<close> fails, or \<open>json()\<close> cannot parse the
  body) or resolves to the parsed body. The two \<open>await\<close>s of one response are one
  settlement, the component doing nothing between them.
\<close>

datatype outcome = Rejected js_error | Resolved jsval

fun await :: "outcome \<Rightarrow> js_error + jsval" where
  "await (Rejected e) = Inl e"
| "await (Resolved v) = Inr v"

definition remove_nth :: "nat \<Rightarrow> 'a list \<Rightarrow> 'a list" where
  "remove_nth i xs = take i xs @ drop (Suc i) xs"

text \<open>The \<open>i\<close>-th waiting call resumes with the geocoding response.\<close>

definition geo_settled :: "runtime \<Rightarrow> nat \<Rightarrow> outcome \<Rightarrow> app \<Rightarrow> app" where
  "geo_settled rt i out s =
     (if i < length (pending s) \<and> pending s ! i = AwaitGeo then
        (case and_then (await out) (fetchWeather_geo rt) of
           Inl e \<Rightarrow>
             fetchWeather_finally
               (fetchWeather_catch (s\<lparr>pending := remove_nth i (pending s)\<rparr>))
         | Inr (name, country', req) \<Rightarrow>
             s\<lparr>pending := (pending s)[i := AwaitForecast name country'],
               requests := requests s @ [req]\<rparr>)
      else s)"

text \<open>The \<open>i\<close>-th waiting call resumes with the forecast response and ends.\<close>

definition forecast_settled :: "runtime \<Rightarrow> nat \<Rightarrow> outcome \<Rightarrow> app \<Rightarrow> app" where
  "forecast_settled rt i out s =
     (if i < length (pending s) then
        (case pending s ! i of
           AwaitGeo \<Rightarrow> s
         | AwaitForecast name country' \<Rightarrow>
             (case and_then (await out) (fetchWeather_forecast rt name country') of
                Inl e \<Rightarrow>
                  fetchWeather_finally
                    (fetchWeather_catch (s\<lparr>pending := remove_nth i (pending s)\<rparr>))
              | Inr w \<Rightarrow>
                  fetchWeather_finally
                    (s\<lparr>pending := remove_nth i (pending s), weather := Some w\<rparr>)))
      else s)"

text \<open>
  Lines 114 to 118 and 127 to 141: the key handler of the input, its \<open>onChange\<close>, and
  the button, whose \<open>onClick\<close> does not fire while it is \<open>disabled\<close>.
\<close>

definition handleKeyPress :: "string \<Rightarrow> app \<Rightarrow> app" where
  "handleKeyPress key s = (if key = ''Enter'' then fetchWeather s else s)"

definition onChange :: "string \<Rightarrow> app \<Rightarrow> app" where
  "onChange text s = s\<lparr>city_input := text\<rparr>"

definition onClick :: "app \<Rightarrow> app" where
  "onClick s = (if loading s then s else fetchWeather s)"

datatype event =
    Change string
  | Click
  | KeyPress string
  | GeoSettled nat outcome
  | ForecastSettled nat outcome

fun step :: "runtime \<Rightarrow> app \<Rightarrow> event \<Rightarrow> app" where
  "step rt s (Change text) = onChange text s"
| "step rt s Click = onClick s"
| "step rt s (KeyPress key) = handleKeyPress key s"
| "step rt s (GeoSettled i out) = geo_settled rt i out s"
| "step rt s (ForecastSettled i out) = forecast_settled rt i out s"

definition run :: "runtime \<Rightarrow> event list \<Rightarrow> app" where
  "run rt evs = foldl (step rt) initial evs"

text \<open>
  Nothing is in flight and the button is enabled, or exactly one lookup is in flight
  and the button is disabled.
\<close>

definition single_flight :: "app \<Rightarrow> bool" where
  "single_flight s \<longleftrightarrow>
     (pending s = [] \<and> \<not> loading s) \<or> (length (pending s) = 1 \<and> loading s)"




subsection \<open>The element tree the component returns (lines 120 to 205)\<close>












subsection \<open>Two responses of the services\<close>

text \<open>
  A geocoding body with one match and a forecast body, with the values of the
  specification's example (21.6, 19.4, 55, 11.7 and code 61).
\<close>

definition geoData_example :: jsval where
  "geoData_example =
     Obj [(''results'',
       Arr [Obj [(''name'', Str ''Paris''),
                 (''latitude'', Num (Fin (4885341 / 100000))),
                 (''longitude'', Num (Fin (23488 / 10000))),
                 (''country'', Str ''France'')]])]"


definition weatherData_example :: jsval where
  "weatherData_example =
     Obj [(''current'',
       Obj [(''temperature_2m'', Num (Fin (108 / 5))),
            (''relative_humidity_2m'', Num (Fin 55)),
            (''apparent_temperature'', Num (Fin (97 / 5))),
            (''weather_code'', Num (Fin 61)),
            (''wind_speed_10m'', Num (Fin (117 / 10)))])]"

section \<open>Properties\<close>

subsection \<open>Auxiliary facts\<close>

lemmas handlers =
  fetchWeather_def onClick_def handleKeyPress_def onChange_def geo_settled_def
  forecast_settled_def fetchWeather_catch_def fetchWeather_finally_def remove_nth_def


lemma condition_description_Fin:
  "condition_description rt (Num (Fin x)) =
     Inr (if x = 0 then (''Clear'', ''Clear sky'')
          else if x \<le> 3 then (''Clouds'', ''Partly cloudy'')
          else if x \<le> 49 then (''Fog'', ''Foggy'')
          else if x \<le> 69 then (''Rain'', ''Rainy'')
          else if x \<le> 79 then (''Snow'', ''Snowy'')
          else if x \<le> 99 then (''Thunderstorm'', ''Thunderstorm'')
          else (''Clear'', ''Clear sky''))"
  by (simp add: condition_description_def js_le_def strict_eq_num_def and_then_def)

lemma trim_Paris: "trim ''Paris'' = ''Paris''"
  by (simp add: trim_def isWhiteSpace_def)

lemma trim_blank:
  assumes "\<forall>c \<in> set s. isWhiteSpace c"
  shows "trim s = []"
proof -
  have blank: "dropWhile isWhiteSpace s = []"
    using assms by simp
  show ?thesis
    unfolding trim_def blank by simp
qed


lemma geo_example:
  "fetchWeather_geo rt geoData_example =
     Inr (Str ''Paris'', Str ''France'',
          ForecastReq (Number_toString rt (Fin (4885341 / 100000)))
            (Number_toString rt (Fin (23488 / 10000))))"
  by (simp add: fetchWeather_geo_def geoData_example_def and_then_def strict_eq_num_def
      element_at_def index_of_def)



lemma run_loading:
  "run rt [Change ''Paris'', Click] =
     \<lparr>city_input = ''Paris'', weather = None, loading = True, error = [],
      pending = [AwaitGeo], requests = [GeoReq ''Paris'']\<rparr>"
  by (simp add: run_def initial_def handlers trim_Paris)

lemma run_forecast_pending:
  "run rt [Change ''Paris'', Click, GeoSettled 0 (Resolved geoData_example)] =
     \<lparr>city_input = ''Paris'', weather = None, loading = True, error = [],
      pending = [AwaitForecast (Str ''Paris'') (Str ''France'')],
      requests = [GeoReq ''Paris'',
        ForecastReq (Number_toString rt (Fin (4885341 / 100000)))
          (Number_toString rt (Fin (23488 / 10000)))]\<rparr>"
  by (simp add: run_def initial_def handlers trim_Paris geo_example and_then_def)



lemma city_input_step:
  "(\<And>text. e \<noteq> Change text) \<Longrightarrow> city_input (step rt s e) = city_input s"
  by (cases e) (auto simp add: handlers split: sum.splits lookup.splits prod.splits)

lemma lower_categories:
  "toLowerCase ''Clear'' = ''clear''"
  "toLowerCase ''Clouds'' = ''clouds''"
  "toLowerCase ''Fog'' = ''fog''"
  "toLowerCase ''Rain'' = ''rain''"
  "toLowerCase ''Snow'' = ''snow''"
  "toLowerCase ''Thunderstorm'' = ''thunderstorm''"
  by code_simp+

subsection \<open>The weather code\<close>

text \<open>
  Claim C1. For every integer weather code \<open>c\<close> of the code space 0..99 the
  classification is the ordered-range function, whatever the runtime and the state:
  0 gives Clear, "Clear sky"; otherwise \<open>c \<le> 3\<close> gives Clouds, "Partly cloudy";
  otherwise \<open>c \<le> 49\<close> gives Fog, "Foggy"; otherwise \<open>c \<le> 69\<close> gives Rain, "Rainy";
  otherwise \<open>c \<le> 79\<close> gives Snow, "Snowy"; otherwise Thunderstorm, "Thunderstorm".
\<close>

theorem weather_code_classification:
  assumes "0 \<le> c" and "c \<le> 99"
  shows "condition_description rt (Num (Fin (of_int c))) =
     Inr (if c = 0 then (''Clear'', ''Clear sky'')
          else if c \<le> 3 then (''Clouds'', ''Partly cloudy'')
          else if c \<le> 49 then (''Fog'', ''Foggy'')
          else if c \<le> 69 then (''Rain'', ''Rainy'')
          else if c \<le> 79 then (''Snow'', ''Snowy'')
          else (''Thunderstorm'', ''Thunderstorm''))"
  using assms by (simp add: condition_description_Fin)

text \<open>The codes 0, 3, 45, 49, 69, 79 and 99 of the specification.\<close>

theorem weather_code_classification_witness:
  "\<forall>rt. (0::int) \<le> 45 \<and> (45::int) \<le> 99
     \<and> condition_description rt (Num (Fin 0)) = Inr (''Clear'', ''Clear sky'')
     \<and> condition_description rt (Num (Fin 3)) = Inr (''Clouds'', ''Partly cloudy'')
     \<and> condition_description rt (Num (Fin 45)) = Inr (''Fog'', ''Foggy'')
     \<and> condition_description rt (Num (Fin 49)) = Inr (''Fog'', ''Foggy'')
     \<and> condition_description rt (Num (Fin 69)) = Inr (''Rain'', ''Rainy'')
     \<and> condition_description rt (Num (Fin 79)) = Inr (''Snow'', ''Snowy'')
     \<and> condition_description rt (Num (Fin 99)) = Inr (''Thunderstorm'', ''Thunderstorm'')"
  using weather_code_classification [of 0] weather_code_classification [of 3]
    weather_code_classification [of 45] weather_code_classification [of 49]
    weather_code_classification [of 69] weather_code_classification [of 79]
    weather_code_classification [of 99]
  by simp

text \<open>
  Claim C2 says that every integer code outside 0..99 is classified Clear. The chain
  of lines 76 to 94 has upper bounds only, so a negative code meets \<open>weatherCode <= 3\<close>:
  the code \<open>-1\<close> is classified Clouds.
\<close>

theorem negative_code_is_Clouds:
  "\<forall>rt. condition_description rt (Num (Fin (- 1))) = Inr (''Clouds'', ''Partly cloudy'')
     \<and> condition_description rt (Num (Fin (- 1))) \<noteq> Inr (''Clear'', ''Clear sky'')"
  by (simp add: condition_description_Fin)

text \<open>
  Claim C2, amended. Every integer code above 99 keeps the initial values Clear,
  "Clear sky"; every negative integer code is classified Clouds, "Partly cloudy".
\<close>

theorem weather_code_out_of_range:
  "(99 < c \<longrightarrow>
      condition_description rt (Num (Fin (of_int c))) = Inr (''Clear'', ''Clear sky''))
   \<and> (c < 0 \<longrightarrow>
      condition_description rt (Num (Fin (of_int c))) = Inr (''Clouds'', ''Partly cloudy''))"
  by (simp add: condition_description_Fin)

theorem weather_code_out_of_range_witness:
  "\<forall>rt. (99::int) < 100
     \<and> condition_description rt (Num (Fin 100)) = Inr (''Clear'', ''Clear sky'')
     \<and> (- 5::int) < 0
     \<and> condition_description rt (Num (Fin (- 5))) = Inr (''Clouds'', ''Partly cloudy'')"
  using weather_code_out_of_range [of 100] weather_code_out_of_range [of "- 5"] by simp

subsection \<open>Submissions\<close>

text \<open>
  Claim C3 says that while a lookup is in flight every further submission, by the
  button or by the Enter key, is a no-op, so that two lookups are never in flight
  together. The button is \<open>disabled\<close> while \<open>loading\<close> holds, and a click is a no-op
  then; \<open>handleKeyPress\<close> has no such guard and neither has \<open>fetchWeather\<close>. With
  the text "Paris" and one lookup in flight, the Enter key starts a second lookup
  and a second geocoding request.
\<close>

theorem Enter_while_loading_starts_second_lookup:
  "(let s = run rt [Change ''Paris'', Click] in
      loading s \<and> pending s = [AwaitGeo] \<and> requests s = [GeoReq ''Paris'']
      \<and> step rt s Click = s
      \<and> pending (step rt s (KeyPress ''Enter'')) = [AwaitGeo, AwaitGeo]
      \<and> requests (step rt s (KeyPress ''Enter'')) = [GeoReq ''Paris'', GeoReq ''Paris''])"
  by (simp add: run_def initial_def handlers trim_Paris)

text \<open>
  The guard of the button is enough where the Enter key is not pressed: then at most
  one lookup is in flight in every reachable state.
\<close>

lemma single_flight_step:
  assumes "single_flight s" and "e \<noteq> KeyPress ''Enter''"
  shows "single_flight (step rt s e)"
proof (cases e)
  case (Change t)
  then show ?thesis
    using assms by (simp add: single_flight_def onChange_def)
next
  case Click
  then show ?thesis
    using assms by (auto simp add: single_flight_def onClick_def fetchWeather_def)
next
  case (KeyPress key)
  then show ?thesis
    using assms by (simp add: handleKeyPress_def)
next
  case (GeoSettled i out)
  then show ?thesis
    using assms
    by (auto simp add: single_flight_def handlers length_Suc_conv split: sum.splits prod.splits)
next
  case (ForecastSettled i out)
  then show ?thesis
    using assms
    by (auto simp add: single_flight_def handlers length_Suc_conv
        split: sum.splits prod.splits lookup.splits)
qed

lemma single_flight_foldl:
  assumes "single_flight s" and "KeyPress ''Enter'' \<notin> set evs"
  shows "single_flight (foldl (step rt) s evs)"
  using assms
proof (induction evs arbitrary: s)
  case Nil
  then show ?case by simp
next
  case (Cons e evs)
  then have "single_flight (step rt s e)"
    by (intro single_flight_step) auto
  then show ?case
    using Cons by simp
qed

lemma button_only_never_overlaps:
  assumes "KeyPress ''Enter'' \<notin> set evs"
  shows "length (pending (run rt evs)) \<le> 1"
proof -
  have "single_flight initial"
    by (simp add: single_flight_def initial_def)
  then have "single_flight (run rt evs)"
    unfolding run_def using assms by (rule single_flight_foldl)
  then show ?thesis
    by (auto simp add: single_flight_def)
qed

text \<open>
  Claim C6. For every text that is empty or consists of white space only, a
  submission (the bare call, the button, the Enter key) issues no request and leaves
  the whole state as it is.
\<close>

theorem blank_query_is_noop:
  assumes "\<forall>c \<in> set (city_input s). isWhiteSpace c"
  shows "fetchWeather s = s \<and> step rt s Click = s \<and> step rt s (KeyPress ''Enter'') = s
     \<and> requests (step rt s Click) = requests s
     \<and> requests (step rt s (KeyPress ''Enter'')) = requests s"
  using trim_blank [OF assms] by (simp add: handlers)

text \<open>A space followed by a tab, and the empty text of the initial state.\<close>

theorem blank_query_is_noop_witness:
  "\<forall>rt. list_all isWhiteSpace (city_input (initial\<lparr>city_input := [CHR '' '', CHR 0x09]\<rparr>))
     \<and> step rt (initial\<lparr>city_input := [CHR '' '', CHR 0x09]\<rparr>) Click =
         initial\<lparr>city_input := [CHR '' '', CHR 0x09]\<rparr>
     \<and> step rt (initial\<lparr>city_input := [CHR '' '', CHR 0x09]\<rparr>) (KeyPress ''Enter'') =
         initial\<lparr>city_input := [CHR '' '', CHR 0x09]\<rparr>
     \<and> step rt initial Click = initial
     \<and> requests (step rt (initial\<lparr>city_input := [CHR '' '', CHR 0x09]\<rparr>) (KeyPress ''Enter'')) = []"
proof
  fix rt
  let ?s = "initial\<lparr>city_input := [CHR '' '', CHR 0x09]\<rparr>"
  have blank: "\<forall>c \<in> set (city_input ?s). isWhiteSpace c"
    by (simp add: isWhiteSpace_def)
  have empty: "\<forall>c \<in> set (city_input initial). isWhiteSpace c"
    by (simp add: initial_def)
  show "list_all isWhiteSpace (city_input ?s)
     \<and> step rt ?s Click = ?s
     \<and> step rt ?s (KeyPress ''Enter'') = ?s
     \<and> step rt initial Click = initial
     \<and> requests (step rt ?s (KeyPress ''Enter'')) = []"
    using blank_query_is_noop [OF blank, of rt] blank_query_is_noop [OF empty, of rt] blank
    by (simp add: initial_def list_all_iff)
qed

text \<open>
  Claim C9. The lookup never changes the text of the input: over any sequence of
  events without a \<open>Change\<close> (submissions and settlements, in any order and with any
  outcome), \<open>city_input\<close> is at the end what it was at the start. Typing changes
  it, to the text typed.
\<close>

theorem lookup_keeps_query:
  assumes "\<And>text. Change text \<notin> set evs"
  shows "city_input (foldl (step rt) s evs) = city_input s
     \<and> city_input (step rt (foldl (step rt) s evs) (Change typed)) = typed"
proof -
  have "city_input (foldl (step rt) s evs) = city_input s"
    using assms
  proof (induction evs arbitrary: s)
    case Nil
    then show ?case by simp
  next
    case (Cons e evs)
    have "city_input (step rt s e) = city_input s"
      using Cons.prems by (intro city_input_step) auto
    moreover have "city_input (foldl (step rt) (step rt s e) evs) = city_input (step rt s e)"
      using Cons.prems by (intro Cons.IH) auto
    ultimately show ?case by simp
  qed
  then show ?thesis
    by (simp add: onChange_def)
qed

text \<open>Two overlapping lookups of "Paris", one succeeding and one failing.\<close>

theorem lookup_keeps_query_witness:
  "\<forall>rt. city_input (foldl (step rt) (initial\<lparr>city_input := ''Paris''\<rparr>)
       [Click, KeyPress ''Enter'', GeoSettled 0 (Resolved geoData_example),
        ForecastSettled 0 (Resolved weatherData_example),
        GeoSettled 0 (Rejected TypeError)]) = ''Paris''
     \<and> city_input (step rt (foldl (step rt) (initial\<lparr>city_input := ''Paris''\<rparr>)
       [Click, KeyPress ''Enter'', GeoSettled 0 (Resolved geoData_example),
        ForecastSettled 0 (Resolved weatherData_example),
        GeoSettled 0 (Rejected TypeError)]) (Change ''Rome'')) = ''Rome''"
proof
  fix rt
  let ?evs = "[Click, KeyPress ''Enter'', GeoSettled 0 (Resolved geoData_example),
        ForecastSettled 0 (Resolved weatherData_example), GeoSettled 0 (Rejected TypeError)]"
  have "\<And>text. Change text \<notin> set ?evs"
    by simp
  from lookup_keeps_query [of ?evs rt "initial\<lparr>city_input := ''Paris''\<rparr>" "''Rome''", OF this]
  show "city_input (foldl (step rt) (initial\<lparr>city_input := ''Paris''\<rparr>) ?evs) = ''Paris''
     \<and> city_input (step rt (foldl (step rt) (initial\<lparr>city_input := ''Paris''\<rparr>) ?evs)
          (Change ''Rome'')) = ''Rome''"
    by simp
qed

subsection \<open>The element tree\<close>






subsection \<open>The stored result\<close>

text \<open>
  Claim C5. When the forecast body of a waiting lookup holds the Numbers \<open>t\<close>, \<open>a\<close>
  and \<open>w\<close> for temperature, apparent temperature and wind speed, the value \<open>h\<close>
  for humidity and a weather code that classifies as \<open>(cond, desc)\<close>, the stored
  \<open>WeatherData\<close> holds \<open>t\<close>, \<open>a\<close> and \<open>w\<close> rounded to a nearest integer (at most
  one half away), \<open>h\<close> unchanged, and \<open>cond\<close> and \<open>desc\<close>. With 21.6, 19.4, 55, 11.7
  and code 61 it holds 22, 19, 55, 12, "Rain" and "Rainy".
\<close>

theorem forecast_values_normalised:
  assumes "i < length (pending s)" and "pending s ! i = AwaitForecast name country'"
    and "js_get weatherData ''current'' = Inr current"
    and "js_get current ''temperature_2m'' = Inr (Num (Fin t))"
    and "js_get current ''apparent_temperature'' = Inr (Num (Fin a))"
    and "js_get current ''relative_humidity_2m'' = Inr h"
    and "js_get current ''wind_speed_10m'' = Inr (Num (Fin w))"
    and "js_get current ''weather_code'' = Inr code"
    and "condition_description rt code = Inr (cond, desc)"
  shows "weather (step rt s (ForecastSettled i (Resolved weatherData))) =
       Some \<lparr>city = name, country = country',
             temperature = Fin (of_int \<lfloor>t + 1 / 2\<rfloor>),
             feelsLike = Fin (of_int \<lfloor>a + 1 / 2\<rfloor>),
             humidity = h,
             windSpeed = Fin (of_int \<lfloor>w + 1 / 2\<rfloor>),
             condition = cond, description = desc\<rparr>
     \<and> \<bar>of_int \<lfloor>t + 1 / 2\<rfloor> - t\<bar> \<le> 1 / 2
     \<and> \<bar>of_int \<lfloor>a + 1 / 2\<rfloor> - a\<bar> \<le> 1 / 2
     \<and> \<bar>of_int \<lfloor>w + 1 / 2\<rfloor> - w\<bar> \<le> 1 / 2
     \<and> (t = 108 / 5 \<and> a = 97 / 5 \<and> h = Num (Fin 55) \<and> w = 117 / 10 \<and> code = Num (Fin 61)
          \<longrightarrow> weather (step rt s (ForecastSettled i (Resolved weatherData))) =
       Some \<lparr>city = name, country = country', temperature = Fin 22, feelsLike = Fin 19,
             humidity = Num (Fin 55), windSpeed = Fin 12,
             condition = ''Rain'', description = ''Rainy''\<rparr>)"
proof -
  have stored: "weather (step rt s (ForecastSettled i (Resolved weatherData))) =
       Some \<lparr>city = name, country = country',
             temperature = Fin (of_int \<lfloor>t + 1 / 2\<rfloor>),
             feelsLike = Fin (of_int \<lfloor>a + 1 / 2\<rfloor>),
             humidity = h,
             windSpeed = Fin (of_int \<lfloor>w + 1 / 2\<rfloor>),
             condition = cond, description = desc\<rparr>"
    using assms
    by (simp add: forecast_settled_def fetchWeather_forecast_def and_then_def Math_round_def
        fetchWeather_finally_def)
  have near: "\<bar>of_int \<lfloor>x + 1 / 2\<rfloor> - x\<bar> \<le> 1 / 2" for x :: rat
    by linarith
  have inst: "weather (step rt s (ForecastSettled i (Resolved weatherData))) =
       Some \<lparr>city = name, country = country', temperature = Fin 22, feelsLike = Fin 19,
             humidity = Num (Fin 55), windSpeed = Fin 12,
             condition = ''Rain'', description = ''Rainy''\<rparr>"
    if "t = 108 / 5" "a = 97 / 5" "h = Num (Fin 55)" "w = 117 / 10" "code = Num (Fin 61)"
  proof -
    have "cond = ''Rain'' \<and> desc = ''Rainy''"
      using assms(9) that(5) by (simp add: condition_description_Fin)
    moreover have "\<lfloor>(108 / 5 :: rat) + 1 / 2\<rfloor> = 22" "\<lfloor>(97 / 5 :: rat) + 1 / 2\<rfloor> = 19"
      "\<lfloor>(117 / 10 :: rat) + 1 / 2\<rfloor> = 12"
      by (simp_all add: floor_eq_iff)
    ultimately show ?thesis
      using stored that by simp
  qed
  show ?thesis
    using stored near inst by blast
qed

text \<open>The lookup of "Paris" with the forecast body of the example.\<close>

theorem forecast_values_normalised_witness:
  "\<forall>rt. weather (run rt [Change ''Paris'', Click, GeoSettled 0 (Resolved geoData_example),
        ForecastSettled 0 (Resolved weatherData_example)]) =
     Some \<lparr>city = Str ''Paris'', country = Str ''France'', temperature = Fin 22,
       feelsLike = Fin 19, humidity = Num (Fin 55), windSpeed = Fin 12,
       condition = ''Rain'', description = ''Rainy''\<rparr>"
proof
  fix rt
  let ?s = "run rt [Change ''Paris'', Click, GeoSettled 0 (Resolved geoData_example)]"
  let ?current = "Obj [(''temperature_2m'', Num (Fin (108 / 5))),
     (''relative_humidity_2m'', Num (Fin 55)), (''apparent_temperature'', Num (Fin (97 / 5))),
     (''weather_code'', Num (Fin 61)), (''wind_speed_10m'', Num (Fin (117 / 10)))]"
  have s: "pending ?s = [AwaitForecast (Str ''Paris'') (Str ''France'')]"
    by (simp add: run_def initial_def handlers trim_Paris geo_example and_then_def)
  have "weather (step rt ?s (ForecastSettled 0 (Resolved weatherData_example))) =
     Some \<lparr>city = Str ''Paris'', country = Str ''France'', temperature = Fin 22,
       feelsLike = Fin 19, humidity = Num (Fin 55), windSpeed = Fin 12,
       condition = ''Rain'', description = ''Rainy''\<rparr>"
    using forecast_values_normalised [of 0 ?s "Str ''Paris''" "Str ''France''" weatherData_example ?current
        "108 / 5" "97 / 5" "Num (Fin 55)" "117 / 10" "Num (Fin 61)" rt "''Rain''" "''Rainy''"]
    by (simp add: s weatherData_example_def condition_description_Fin floor_eq_iff)
  then show "weather (run rt [Change ''Paris'', Click, GeoSettled 0 (Resolved geoData_example),
        ForecastSettled 0 (Resolved weatherData_example)]) =
     Some \<lparr>city = Str ''Paris'', country = Str ''France'', temperature = Fin 22,
       feelsLike = Fin 19, humidity = Num (Fin 55), windSpeed = Fin 12,
       condition = ''Rain'', description = ''Rainy''\<rparr>"
    by (simp add: run_def)
qed

subsection \<open>Failures\<close>

text \<open>
  Claim C7 says that every failure mode, a malformed or unexpected response shape
  among them, ends in the one Failure outcome. The component validates no shape:
  only what throws reaches the \<open>catch\<close> block. A forecast body whose \<open>current\<close>
  object is empty throws nowhere; the lookup succeeds and stores \<open>NaN\<close> and
  \<open>undefined\<close> under the condition Clear.
\<close>

theorem incomplete_forecast_is_success:
  "\<forall>rt. weather (run rt [Change ''Paris'', Click, GeoSettled 0 (Resolved geoData_example),
        ForecastSettled 0 (Resolved (Obj [(''current'', Obj [])]))]) =
     Some \<lparr>city = Str ''Paris'', country = Str ''France'', temperature = NaN,
       feelsLike = NaN, humidity = Undefined, windSpeed = NaN,
       condition = ''Clear'', description = ''Clear sky''\<rparr>
   \<and> error (run rt [Change ''Paris'', Click, GeoSettled 0 (Resolved geoData_example),
        ForecastSettled 0 (Resolved (Obj [(''current'', Obj [])]))]) = []"
  by (simp add: run_def initial_def handlers trim_Paris geo_example and_then_def
      fetchWeather_forecast_def condition_description_def js_le_def strict_eq_num_def
      Math_round_def)

text \<open>
  Claim C7, amended. Whatever a lookup throws ends in the same state: the lookup is
  gone from the waiting ones, \<open>error\<close> is exactly "Could not find weather for this
  city. Please try again.", \<open>weather\<close> is cleared and \<open>loading\<close> is cleared; the
  cause \<open>e\<close> is not in it. This covers a rejection at either call, a geocoding body
  whose \<open>results\<close> is missing, falsy or of length 0 (which throws "City not found"),
  a geocoding body that is \<open>null\<close>, and a forecast body that is \<open>null\<close> or has no
  \<open>current\<close> object. A body on which nothing throws is not a failure.
\<close>

theorem lookup_failures_collapse:
  assumes "i < length (pending s)"
  shows "(pending s ! i = AwaitGeo \<longrightarrow>
            step rt s (GeoSettled i (Rejected e)) =
              fetchWeather_finally (fetchWeather_catch (s\<lparr>pending := remove_nth i (pending s)\<rparr>))
          \<and> (fetchWeather_geo rt geoData = Inl e \<longrightarrow>
              step rt s (GeoSettled i (Resolved geoData)) =
                fetchWeather_finally (fetchWeather_catch (s\<lparr>pending := remove_nth i (pending s)\<rparr>))))
     \<and> (pending s ! i = AwaitForecast name country' \<longrightarrow>
            step rt s (ForecastSettled i (Rejected e)) =
              fetchWeather_finally (fetchWeather_catch (s\<lparr>pending := remove_nth i (pending s)\<rparr>))
          \<and> (fetchWeather_forecast rt name country' weatherData = Inl e \<longrightarrow>
              step rt s (ForecastSettled i (Resolved weatherData)) =
                fetchWeather_finally (fetchWeather_catch (s\<lparr>pending := remove_nth i (pending s)\<rparr>))))
     \<and> (js_get geoData ''results'' = Inr results
          \<and> (\<not> ToBoolean results \<or> js_get results ''length'' = Inr (Num (Fin 0)))
          \<longrightarrow> fetchWeather_geo rt geoData = Inl (Error ''City not found''))
     \<and> (geoData = Null \<or> geoData = Undefined \<longrightarrow> fetchWeather_geo rt geoData = Inl TypeError)
     \<and> (js_get weatherData ''current'' = Inr Undefined \<or> js_get weatherData ''current'' = Inr Null
          \<or> weatherData = Null
          \<longrightarrow> fetchWeather_forecast rt name country' weatherData = Inl TypeError)
     \<and> error (fetchWeather_finally (fetchWeather_catch (s\<lparr>pending := remove_nth i (pending s)\<rparr>)))
          = ''Could not find weather for this city. Please try again.''
     \<and> weather (fetchWeather_finally (fetchWeather_catch (s\<lparr>pending := remove_nth i (pending s)\<rparr>)))
          = None
     \<and> \<not> loading (fetchWeather_finally (fetchWeather_catch (s\<lparr>pending := remove_nth i (pending s)\<rparr>)))"
proof -
  have geo: "step rt s (GeoSettled i out) =
      fetchWeather_finally (fetchWeather_catch (s\<lparr>pending := remove_nth i (pending s)\<rparr>))"
    if "pending s ! i = AwaitGeo" "and_then (await out) (fetchWeather_geo rt) = Inl e" for out
    using assms that by (simp add: geo_settled_def)
  have forecast: "step rt s (ForecastSettled i out) =
      fetchWeather_finally (fetchWeather_catch (s\<lparr>pending := remove_nth i (pending s)\<rparr>))"
    if "pending s ! i = AwaitForecast name country'"
      "and_then (await out) (fetchWeather_forecast rt name country') = Inl e" for out
    using assms that by (simp add: forecast_settled_def)
  have not_found: "fetchWeather_geo rt geoData = Inl (Error ''City not found'')"
    if "js_get geoData ''results'' = Inr results"
      "\<not> ToBoolean results \<or> js_get results ''length'' = Inr (Num (Fin 0))"
    using that by (auto simp add: fetchWeather_geo_def and_then_def strict_eq_num_def)
  have no_body: "fetchWeather_geo rt geoData = Inl TypeError"
    if "geoData = Null \<or> geoData = Undefined"
    using that by (auto simp add: fetchWeather_geo_def and_then_def)
  have no_current: "fetchWeather_forecast rt name country' weatherData = Inl TypeError"
    if "js_get weatherData ''current'' = Inr Undefined \<or> js_get weatherData ''current'' = Inr Null
          \<or> weatherData = Null"
    using that by (auto simp add: fetchWeather_forecast_def and_then_def)
  have state: "error (fetchWeather_finally (fetchWeather_catch (s\<lparr>pending := remove_nth i (pending s)\<rparr>)))
          = ''Could not find weather for this city. Please try again.''"
    "weather (fetchWeather_finally (fetchWeather_catch (s\<lparr>pending := remove_nth i (pending s)\<rparr>)))
          = None"
    "\<not> loading (fetchWeather_finally (fetchWeather_catch (s\<lparr>pending := remove_nth i (pending s)\<rparr>)))"
    by (simp_all add: fetchWeather_finally_def fetchWeather_catch_def error_message_def)
  have g1: "step rt s (GeoSettled i (Rejected e)) =
      fetchWeather_finally (fetchWeather_catch (s\<lparr>pending := remove_nth i (pending s)\<rparr>))"
    if "pending s ! i = AwaitGeo"
    using geo [of "Rejected e"] that by (simp add: and_then_def)
  have g2: "step rt s (GeoSettled i (Resolved geoData)) =
      fetchWeather_finally (fetchWeather_catch (s\<lparr>pending := remove_nth i (pending s)\<rparr>))"
    if "pending s ! i = AwaitGeo" "fetchWeather_geo rt geoData = Inl e"
    using geo [of "Resolved geoData"] that by (simp add: and_then_def)
  have f1: "step rt s (ForecastSettled i (Rejected e)) =
      fetchWeather_finally (fetchWeather_catch (s\<lparr>pending := remove_nth i (pending s)\<rparr>))"
    if "pending s ! i = AwaitForecast name country'"
    using forecast [of "Rejected e"] that by (simp add: and_then_def)
  have f2: "step rt s (ForecastSettled i (Resolved weatherData)) =
      fetchWeather_finally (fetchWeather_catch (s\<lparr>pending := remove_nth i (pending s)\<rparr>))"
    if "pending s ! i = AwaitForecast name country'"
      "fetchWeather_forecast rt name country' weatherData = Inl e"
    using forecast [of "Resolved weatherData"] that by (simp add: and_then_def)
  show ?thesis
    using g1 g2 f1 f2 not_found no_body no_current state by blast
qed

text \<open>
  The lookup of "Paris": a rejected geocoding call, an empty and a missing \<open>results\<close>
  array, a rejected forecast call and the error body of the forecast service.
\<close>

theorem lookup_failures_collapse_witness:
  "\<forall>rt.
     step rt (run rt [Change ''Paris'', Click]) (GeoSettled 0 (Rejected TypeError)) =
       \<lparr>city_input = ''Paris'', weather = None, loading = False,
        error = ''Could not find weather for this city. Please try again.'',
        pending = [], requests = [GeoReq ''Paris'']\<rparr>
   \<and> step rt (run rt [Change ''Paris'', Click]) (GeoSettled 0 (Resolved (Obj [(''results'', Arr [])]))) =
       step rt (run rt [Change ''Paris'', Click]) (GeoSettled 0 (Rejected TypeError))
   \<and> step rt (run rt [Change ''Paris'', Click]) (GeoSettled 0 (Resolved (Obj []))) =
       step rt (run rt [Change ''Paris'', Click]) (GeoSettled 0 (Rejected TypeError))
   \<and> fetchWeather_geo rt (Obj [(''results'', Arr [])]) = Inl (Error ''City not found'')
   \<and> fetchWeather_geo rt (Obj []) = Inl (Error ''City not found'')
   \<and> fetchWeather_geo rt Null = Inl TypeError
   \<and> fetchWeather_forecast rt (Str ''Paris'') (Str ''France'') (Obj [(''error'', Bool True)]) = Inl TypeError
   \<and> error (step rt (run rt [Change ''Paris'', Click, GeoSettled 0 (Resolved geoData_example)])
        (ForecastSettled 0 (Rejected SyntaxError))) =
       ''Could not find weather for this city. Please try again.''
   \<and> step rt (run rt [Change ''Paris'', Click, GeoSettled 0 (Resolved geoData_example)])
        (ForecastSettled 0 (Resolved (Obj [(''error'', Bool True)]))) =
       step rt (run rt [Change ''Paris'', Click, GeoSettled 0 (Resolved geoData_example)])
        (ForecastSettled 0 (Rejected SyntaxError))"
proof
  fix rt
  let ?s = "run rt [Change ''Paris'', Click]"
  let ?t = "run rt [Change ''Paris'', Click, GeoSettled 0 (Resolved geoData_example)]"
  have i: "0 < length (pending ?s)" "0 < length (pending ?t)"
    by (simp_all add: run_loading run_forecast_pending)
  have s: "pending ?s ! 0 = AwaitGeo"
    by (simp add: run_loading)
  have t: "pending ?t ! 0 = AwaitForecast (Str ''Paris'') (Str ''France'')"
    by (simp add: run_forecast_pending)
  have empty: "js_get (Obj [(''results'', Arr [])]) ''results'' = Inr (Arr [])
      \<and> (\<not> ToBoolean (Arr []) \<or> js_get (Arr []) ''length'' = Inr (Num (Fin 0)))"
    by simp
  have missing: "js_get (Obj []) ''results'' = Inr Undefined
      \<and> (\<not> ToBoolean Undefined \<or> js_get Undefined ''length'' = Inr (Num (Fin 0)))"
    by simp
  have no_current: "js_get (Obj [(''error'', Bool True)]) ''current'' = Inr Undefined"
    by simp
  note a = lookup_failures_collapse [OF i(1), of rt TypeError "Obj [(''results'', Arr [])]" _ _
      "Obj [(''error'', Bool True)]" "Arr []"]
  note b = lookup_failures_collapse [OF i(1), of rt "Error ''City not found''" "Obj [(''results'', Arr [])]" _ _ _ "Arr []"]
  note c = lookup_failures_collapse [OF i(1), of rt "Error ''City not found''" "Obj []" _ _ _ Undefined]
  note d = lookup_failures_collapse [OF i(1), of rt _ Null]
  note e = lookup_failures_collapse [OF i(2), of rt SyntaxError _ "Str ''Paris''" "Str ''France''"
      "Obj [(''error'', Bool True)]"]
  note f = lookup_failures_collapse [OF i(2), of rt TypeError _ "Str ''Paris''" "Str ''France''"
      "Obj [(''error'', Bool True)]"]
  have 1: "step rt ?s (GeoSettled 0 (Rejected TypeError)) =
       \<lparr>city_input = ''Paris'', weather = None, loading = False,
        error = ''Could not find weather for this city. Please try again.'',
        pending = [], requests = [GeoReq ''Paris'']\<rparr>"
    using a s by (simp add: run_loading fetchWeather_finally_def fetchWeather_catch_def
        remove_nth_def error_message_def)
  have 4: "fetchWeather_geo rt (Obj [(''results'', Arr [])]) = Inl (Error ''City not found'')"
    using a empty by blast
  have 5: "fetchWeather_geo rt (Obj []) = Inl (Error ''City not found'')"
    using c missing by blast
  have 2: "step rt ?s (GeoSettled 0 (Resolved (Obj [(''results'', Arr [])]))) =
       step rt ?s (GeoSettled 0 (Rejected TypeError))"
    using a b s 4 by metis
  have 3: "step rt ?s (GeoSettled 0 (Resolved (Obj []))) =
       step rt ?s (GeoSettled 0 (Rejected TypeError))"
    using a c s 5 by metis
  have 6: "fetchWeather_geo rt Null = Inl TypeError"
    using d by blast
  have 7: "fetchWeather_forecast rt (Str ''Paris'') (Str ''France'') (Obj [(''error'', Bool True)])
      = Inl TypeError"
    using e no_current by blast
  have 8: "error (step rt ?t (ForecastSettled 0 (Rejected SyntaxError))) =
       ''Could not find weather for this city. Please try again.''"
    using e t by metis
  have 9: "step rt ?t (ForecastSettled 0 (Resolved (Obj [(''error'', Bool True)]))) =
       step rt ?t (ForecastSettled 0 (Rejected SyntaxError))"
    using e f t 7 by metis
  show "step rt ?s (GeoSettled 0 (Rejected TypeError)) =
       \<lparr>city_input = ''Paris'', weather = None, loading = False,
        error = ''Could not find weather for this city. Please try again.'',
        pending = [], requests = [GeoReq ''Paris'']\<rparr>
   \<and> step rt ?s (GeoSettled 0 (Resolved (Obj [(''results'', Arr [])]))) =
       step rt ?s (GeoSettled 0 (Rejected TypeError))
   \<and> step rt ?s (GeoSettled 0 (Resolved (Obj []))) =
       step rt ?s (GeoSettled 0 (Rejected TypeError))
   \<and> fetchWeather_geo rt (Obj [(''results'', Arr [])]) = Inl (Error ''City not found'')
   \<and> fetchWeather_geo rt (Obj []) = Inl (Error ''City not found'')
   \<and> fetchWeather_geo rt Null = Inl TypeError
   \<and> fetchWeather_forecast rt (Str ''Paris'') (Str ''France'') (Obj [(''error'', Bool True)]) = Inl TypeError
   \<and> error (step rt ?t (ForecastSettled 0 (Rejected SyntaxError))) =
       ''Could not find weather for this city. Please try again.''
   \<and> step rt ?t (ForecastSettled 0 (Resolved (Obj [(''error'', Bool True)]))) =
       step rt ?t (ForecastSettled 0 (Rejected SyntaxError))"
    using 1 2 3 4 5 6 7 8 9 by blast
qed







subsection \<open>The icon\<close>

text \<open>
  Claim C10. \<open>getWeatherIcon\<close> is a total function of the string that depends on it
  up to letter case only: a string that equals Clear, Clouds, Fog, Rain, Snow or
  Thunderstorm up to letter case has the icon of that category; "drizzle" has the
  icon of Rain, "mist" and "haze" the icon of Fog; every other string has the
  default icon \<open>Sun\<close>, which is the icon of Clear.
\<close>

theorem getWeatherIcon_by_category:
  "(toLowerCase s = toLowerCase ''Clear'' \<longrightarrow> getWeatherIcon s = (Sun, iconClass))
   \<and> (toLowerCase s = toLowerCase ''Clouds'' \<longrightarrow> getWeatherIcon s = (Cloud, iconClass))
   \<and> (toLowerCase s = toLowerCase ''Fog'' \<longrightarrow> getWeatherIcon s = (CloudFog, iconClass))
   \<and> (toLowerCase s = toLowerCase ''Rain'' \<longrightarrow> getWeatherIcon s = (CloudRain, iconClass))
   \<and> (toLowerCase s = toLowerCase ''Snow'' \<longrightarrow> getWeatherIcon s = (CloudSnow, iconClass))
   \<and> (toLowerCase s = toLowerCase ''Thunderstorm'' \<longrightarrow>
        getWeatherIcon s = (CloudLightning, iconClass))
   \<and> (toLowerCase s = ''drizzle'' \<longrightarrow> getWeatherIcon s = getWeatherIcon ''Rain'')
   \<and> (toLowerCase s = ''mist'' \<or> toLowerCase s = ''haze'' \<longrightarrow>
        getWeatherIcon s = getWeatherIcon ''Fog'')
   \<and> (toLowerCase s \<notin> set [''clear'', ''clouds'', ''rain'', ''drizzle'', ''snow'',
          ''thunderstorm'', ''mist'', ''fog'', ''haze''] \<longrightarrow>
        getWeatherIcon s = (Sun, iconClass) \<and> getWeatherIcon s = getWeatherIcon ''Clear'')
   \<and> (toLowerCase s = toLowerCase t \<longrightarrow> getWeatherIcon s = getWeatherIcon t)"
  by (simp add: getWeatherIcon_def lower_categories)

theorem getWeatherIcon_by_category_witness:
  "getWeatherIcon ''CLEAR'' = (Sun, iconClass)
   \<and> getWeatherIcon ''cLoUdS'' = (Cloud, iconClass)
   \<and> getWeatherIcon ''fog'' = (CloudFog, iconClass)
   \<and> getWeatherIcon ''RAIN'' = (CloudRain, iconClass)
   \<and> getWeatherIcon ''Snow'' = (CloudSnow, iconClass)
   \<and> getWeatherIcon ''ThunderStorm'' = (CloudLightning, iconClass)
   \<and> getWeatherIcon ''Drizzle'' = getWeatherIcon ''Rain''
   \<and> getWeatherIcon ''MIST'' = getWeatherIcon ''Fog''
   \<and> getWeatherIcon ''Haze'' = getWeatherIcon ''Fog''
   \<and> getWeatherIcon ''Tornado'' = getWeatherIcon ''Clear''
   \<and> getWeatherIcon [] = (Sun, iconClass)"
proof -
  have lower: "toLowerCase ''CLEAR'' = ''clear''" "toLowerCase ''cLoUdS'' = ''clouds''"
    "toLowerCase ''fog'' = ''fog''" "toLowerCase ''RAIN'' = ''rain''"
    "toLowerCase ''Snow'' = ''snow''" "toLowerCase ''ThunderStorm'' = ''thunderstorm''"
    "toLowerCase ''Drizzle'' = ''drizzle''" "toLowerCase ''MIST'' = ''mist''"
    "toLowerCase ''Haze'' = ''haze''" "toLowerCase ''Tornado'' = ''tornado''"
    "toLowerCase [] = []"
    by code_simp+
  show ?thesis
    using getWeatherIcon_by_category [of "''CLEAR''"] getWeatherIcon_by_category [of "''cLoUdS''"] getWeatherIcon_by_category [of "''fog''"] getWeatherIcon_by_category [of "''RAIN''"]
      getWeatherIcon_by_category [of "''Snow''"] getWeatherIcon_by_category [of "''ThunderStorm''"] getWeatherIcon_by_category [of "''Drizzle''"] getWeatherIcon_by_category [of "''MIST''"]
      getWeatherIcon_by_category [of "''Haze''"] getWeatherIcon_by_category [of "''Tornado''"] getWeatherIcon_by_category [of "[]"] getWeatherIcon_by_category [of "''Clear''"]
    by (simp add: lower lower_categories)
qed

end
